theory Spec2Isabelle
  imports Complex_Main "HOL-Library.Log_Nat"
begin

section \<open>The four-way intersection: data model\<close>

text \<open>
  The program is \<^verbatim>\<open>src/cruzamento-quatro-vias.c\<close>. A C enumeration is an integer type:
  a variable of type \<^verbatim>\<open>Direcao\<close> can hold the four directions, the sentinel
  \<^verbatim>\<open>NUM_DIRECOES\<close> and any other integer value. Directions are therefore modelled by
  their integer values, so that the admission predicate can be asked about values that are
  no direction at all. The two other enumerations are only ever compared with their own
  enumerators and are modelled as datatypes.
\<close>

type_synonym Direcao = int

definition NORTE :: Direcao where "NORTE = 0"
definition SUL :: Direcao where "SUL = 1"
definition LESTE :: Direcao where "LESTE = 2"
definition OESTE :: Direcao where "OESTE = 3"
definition NUM_DIRECOES :: Direcao where "NUM_DIRECOES = 4"

datatype EstadoFluxo = FLUXO_NS | FLUXO_LO | AMBULANCIA_NS | AMBULANCIA_LO

datatype TipoVeiculo = TIPO_CARRO | TIPO_AMBULANCIA

text \<open>
  The shared structure \<^verbatim>\<open>Cruzamento\<close>. The two arrays of waiting counts are indexed by a
  direction; they are functions from the index to the cell. The mutexes, the condition
  variable and the arrays of identifiers used only for printing are not part of the record:
  the lock is modelled by the atomicity of the steps below. The counters are C \<^verbatim>\<open>int\<close>s
  that never leave the range of the number of threads; they are unbounded integers here.
\<close>

record Cruzamento =
  carros_esperando :: "Direcao \<Rightarrow> int"
  ambulancias_esperando :: "Direcao \<Rightarrow> int"
  carros_no_cruzamento :: int
  ambulancias_no_cruzamento :: int
  modo_emergencia :: bool
  estado_atual :: EstadoFluxo

section \<open>The admission predicate\<close>

text \<open>
  \<^verbatim>\<open>pode_passar\<close> (lines 112 to 126) reads the global flag \<^verbatim>\<open>cruzamento.modo_emergencia\<close>;
  the model takes the shared structure as its first argument. The result is the C \<^verbatim>\<open>int\<close>
  0 or 1.
\<close>

definition pode_passar :: "Cruzamento \<Rightarrow> Direcao \<Rightarrow> EstadoFluxo \<Rightarrow> TipoVeiculo \<Rightarrow> int" where
  "pode_passar cruzamento dir estado tipo =
     (if (estado = AMBULANCIA_NS \<or> estado = AMBULANCIA_LO) \<and> tipo \<noteq> TIPO_AMBULANCIA then 0
      else if modo_emergencia cruzamento \<and> tipo = TIPO_CARRO then 0
      else if (dir = NORTE \<or> dir = SUL) \<and> (estado = FLUXO_NS \<or> estado = AMBULANCIA_NS) then 1
      else if (dir = LESTE \<or> dir = OESTE) \<and> (estado = FLUXO_LO \<or> estado = AMBULANCIA_LO) then 1
      else 0)"

text \<open>
  The notions the specification uses to describe the predicate: the two axes, the axis of a
  direction (none for a value that is no direction) and the axis and mode of a flow selector.
\<close>

datatype Eixo = EIXO_NS | EIXO_LO

definition eixo_direcao :: "Direcao \<Rightarrow> Eixo option" where
  "eixo_direcao dir =
     (if dir = NORTE \<or> dir = SUL then Some EIXO_NS
      else if dir = LESTE \<or> dir = OESTE then Some EIXO_LO
      else None)"

fun eixo_fluxo :: "EstadoFluxo \<Rightarrow> Eixo" where
  "eixo_fluxo FLUXO_NS = EIXO_NS"
| "eixo_fluxo FLUXO_LO = EIXO_LO"
| "eixo_fluxo AMBULANCIA_NS = EIXO_NS"
| "eixo_fluxo AMBULANCIA_LO = EIXO_LO"

fun fluxo_prioritario :: "EstadoFluxo \<Rightarrow> bool" where
  "fluxo_prioritario FLUXO_NS = False"
| "fluxo_prioritario FLUXO_LO = False"
| "fluxo_prioritario AMBULANCIA_NS = True"
| "fluxo_prioritario AMBULANCIA_LO = True"

section \<open>The window duration\<close>

text \<open>
  The controller computes the duration in floating point (lines 373 to 380):
  \<^verbatim>\<open>tempo_calculado\<close> is a \<^verbatim>\<open>float\<close>, the constants \<^verbatim>\<open>T_BASE\<close> and \<^verbatim>\<open>FATOR_CARRO\<close> are
  \<^verbatim>\<open>double\<close> literals, the expression is evaluated in \<^verbatim>\<open>double\<close>, stored into the
  \<^verbatim>\<open>float\<close> and cast to \<^verbatim>\<open>int\<close>. The model is IEEE 754 arithmetic on rationals: every
  operation computes the exact result and rounds it to the nearest value with 53 (binary64)
  or 24 (binary32) significant bits, ties to even; the product and the sum are rounded one
  after the other, with no fused operation and no extended precision. Exponent limits play
  no part: the values of this program are far from overflow and underflow.
\<close>

definition pot2 :: "int \<Rightarrow> rat" where
  "pot2 k = (if 0 \<le> k then 2 ^ nat k else 1 / 2 ^ nat (- k))"

text \<open>The binary exponent of a positive rational: \<open>pot2 e \<le> x < pot2 (e + 1)\<close>.\<close>

definition expoente :: "rat \<Rightarrow> int" where
  "expoente x =
     (if 1 \<le> x then bitlen \<lfloor>x\<rfloor> - 1
      else (let k = bitlen \<lfloor>1 / x\<rfloor> - 1 in if x * pot2 k = 1 then - k else - k - 1))"

definition inteiro_mais_proximo :: "rat \<Rightarrow> int" where
  "inteiro_mais_proximo m =
     (let f = \<lfloor>m\<rfloor>; r = m - of_int f
      in if r < 1 / 2 then f else if 1 / 2 < r then f + 1 else if even f then f else f + 1)"

definition arredonda :: "nat \<Rightarrow> rat \<Rightarrow> rat" where
  "arredonda p x =
     (if x = 0 then 0
      else let u = pot2 (expoente \<bar>x\<bar> - int p + 1)
           in sgn x * of_int (inteiro_mais_proximo (\<bar>x\<bar> / u)) * u)"

definition para_double :: "rat \<Rightarrow> rat" where
  "para_double x = arredonda 53 x"

definition para_float :: "rat \<Rightarrow> rat" where
  "para_float x = arredonda 24 x"

text \<open>
  The cast \<^verbatim>\<open>(int)\<close> drops the fractional part, towards zero. In C the cast is undefined
  for a value outside the range of \<^verbatim>\<open>int\<close>; the demand is at most the number of car
  threads, 34 in this program, which keeps the value below 75.
\<close>

definition para_int :: "rat \<Rightarrow> int" where
  "para_int x = (if 0 \<le> x then \<lfloor>x\<rfloor> else \<lceil>x\<rceil>)"

definition T_MINIMO :: int where "T_MINIMO = 5"
definition T_MAXIMO :: int where "T_MAXIMO = 20"
definition T_BASE :: rat where "T_BASE = para_double (18 / 10)"
definition FATOR_CARRO :: rat where "FATOR_CARRO = para_double (22 / 10)"

definition tempo_calculado :: "int \<Rightarrow> rat" where
  "tempo_calculado num_carros =
     para_float
       (if num_carros > 0
        then para_double (T_BASE + para_double (para_double (of_int (num_carros - 1)) * FATOR_CARRO))
        else T_BASE)"

definition tempo_final :: "int \<Rightarrow> int" where
  "tempo_final num_carros =
     (let t = para_int (tempo_calculado num_carros)
      in if t > T_MAXIMO then T_MAXIMO else if t < T_MINIMO then T_MINIMO else t)"

section \<open>The controller's decisions\<close>

text \<open>
  Lines 326 to 330: the emergency branch compares the waiting ambulances of the two axes.
  Lines 358 to 369: the normal branch compares the waiting cars and keeps the demand of the
  axis it opens.
\<close>

definition decide_emergencia :: "Cruzamento \<Rightarrow> EstadoFluxo" where
  "decide_emergencia c =
     (let demanda_amb_ns = ambulancias_esperando c NORTE + ambulancias_esperando c SUL;
          demanda_amb_lo = ambulancias_esperando c LESTE + ambulancias_esperando c OESTE
      in if demanda_amb_ns \<ge> demanda_amb_lo then AMBULANCIA_NS else AMBULANCIA_LO)"

definition decide_normal :: "Cruzamento \<Rightarrow> EstadoFluxo \<times> int" where
  "decide_normal c =
     (let demanda_ns = carros_esperando c NORTE + carros_esperando c SUL;
          demanda_lo = carros_esperando c LESTE + carros_esperando c OESTE
      in if demanda_ns \<ge> demanda_lo then (FLUXO_NS, demanda_ns) else (FLUXO_LO, demanda_lo))"

section \<open>The threads as atomic steps\<close>

text \<open>
  Every access to the shared structure happens with \<^verbatim>\<open>cruzamento.lock\<close> held, so the code
  between taking the lock (or returning from \<^verbatim>\<open>pthread_cond_wait\<close>) and releasing it
  (or entering \<^verbatim>\<open>pthread_cond_wait\<close>) runs atomically. One step of a thread is one such
  stretch; the program counter of a thread says where it rests between two steps, with the
  lock free. A thread resting inside \<^verbatim>\<open>pthread_cond_wait\<close> may take its next step at any
  time: after a broadcast, or spuriously, as POSIX allows; it then tests its loop condition
  again. The calls of \<^verbatim>\<open>sleep\<close> only delay a step and are not modelled.
\<close>

datatype PcCarro = C_APROXIMANDO | C_ESPERANDO | C_CRUZANDO

text \<open>
  The loop at line 170 and the entry at lines 178 to 184: with the lock held, either wait on
  the condition or leave the queue and enter the intersection.
\<close>

definition carros_tenta :: "Direcao \<Rightarrow> Cruzamento \<Rightarrow> PcCarro \<times> Cruzamento" where
  "carros_tenta direcao_carro c =
     (if pode_passar c direcao_carro (estado_atual c) TIPO_CARRO = 0 then (C_ESPERANDO, c)
      else (C_CRUZANDO,
            c\<lparr>carros_esperando :=
                 (carros_esperando c)(direcao_carro := carros_esperando c direcao_carro - 1),
              carros_no_cruzamento := carros_no_cruzamento c + 1\<rparr>))"

text \<open>
  \<^verbatim>\<open>carros\<close>: from the approach, lines 165 to 184; from the wait, lines 170 to 184; from the
  crossing, lines 190 to 197.
\<close>

fun carros :: "Direcao \<Rightarrow> PcCarro \<Rightarrow> Cruzamento \<Rightarrow> PcCarro \<times> Cruzamento" where
  "carros direcao_carro C_APROXIMANDO c =
     carros_tenta direcao_carro
       (c\<lparr>carros_esperando :=
            (carros_esperando c)(direcao_carro := carros_esperando c direcao_carro + 1)\<rparr>)"
| "carros direcao_carro C_ESPERANDO c = carros_tenta direcao_carro c"
| "carros direcao_carro C_CRUZANDO c =
     (C_APROXIMANDO, c\<lparr>carros_no_cruzamento := carros_no_cruzamento c - 1\<rparr>)"

datatype PcAmbulancia = A_ANUNCIANDO | A_PAUSA | A_ESPERANDO | A_CRUZANDO

definition ambulancia_tenta :: "Direcao \<Rightarrow> Cruzamento \<Rightarrow> PcAmbulancia \<times> Cruzamento" where
  "ambulancia_tenta direcao_ambulancia c =
     (if pode_passar c direcao_ambulancia (estado_atual c) TIPO_AMBULANCIA = 0 then (A_ESPERANDO, c)
      else (A_CRUZANDO,
            c\<lparr>ambulancias_esperando :=
                 (ambulancias_esperando c)
                   (direcao_ambulancia := ambulancias_esperando c direcao_ambulancia - 1),
              ambulancias_no_cruzamento := ambulancias_no_cruzamento c + 1\<rparr>))"

text \<open>
  \<^verbatim>\<open>ambulancia\<close>: the announcement, lines 235 to 240; the queueing, lines 246 to 263; the
  wait, lines 250 to 263; the exit, lines 269 to 277.
\<close>

fun ambulancia :: "Direcao \<Rightarrow> PcAmbulancia \<Rightarrow> Cruzamento \<Rightarrow> PcAmbulancia \<times> Cruzamento" where
  "ambulancia direcao_ambulancia A_ANUNCIANDO c = (A_PAUSA, c\<lparr>modo_emergencia := True\<rparr>)"
| "ambulancia direcao_ambulancia A_PAUSA c =
     ambulancia_tenta direcao_ambulancia
       (c\<lparr>ambulancias_esperando :=
            (ambulancias_esperando c)
              (direcao_ambulancia := ambulancias_esperando c direcao_ambulancia + 1)\<rparr>)"
| "ambulancia direcao_ambulancia A_ESPERANDO c = ambulancia_tenta direcao_ambulancia c"
| "ambulancia direcao_ambulancia A_CRUZANDO c =
     (A_ANUNCIANDO,
      c\<lparr>ambulancias_no_cruzamento := ambulancias_no_cruzamento c - 1,
        modo_emergencia := False\<rparr>)"

text \<open>
  The controller rests at the top of its cycle, in one of its three waits on the condition,
  or in the \<^verbatim>\<open>for\<close> loop of the open window, whose locals \<^verbatim>\<open>proximo_estado\<close>,
  \<^verbatim>\<open>tempo_final\<close> and \<^verbatim>\<open>i\<close> it carries.
\<close>

datatype PcControlador =
  K_CICLO | K_DRENO_EMERGENCIA | K_ESPERA_PASSIVA | K_DRENO_NORMAL | K_JANELA EstadoFluxo int int

text \<open>Lines 341 to 348: the passive wait for the end of the emergency.\<close>

definition espera_passiva :: "Cruzamento \<Rightarrow> PcControlador \<times> Cruzamento" where
  "espera_passiva c = (if modo_emergencia c then (K_ESPERA_PASSIVA, c) else (K_CICLO, c))"

text \<open>Lines 320 to 338: the drain of the emergency branch, then the decision.\<close>

definition dreno_emergencia :: "Cruzamento \<Rightarrow> PcControlador \<times> Cruzamento" where
  "dreno_emergencia c =
     (if carros_no_cruzamento c > 0 then (K_DRENO_EMERGENCIA, c)
      else espera_passiva (c\<lparr>estado_atual := decide_emergencia c\<rparr>))"

text \<open>Lines 352 to 387: the drain of the normal branch, the decision and the duration.\<close>

definition dreno_normal :: "Cruzamento \<Rightarrow> PcControlador \<times> Cruzamento" where
  "dreno_normal c =
     (if carros_no_cruzamento c > 0 then (K_DRENO_NORMAL, c)
      else (case decide_normal c of (proximo_estado, num_carros) \<Rightarrow>
              (K_JANELA proximo_estado (tempo_final num_carros) 0,
               c\<lparr>estado_atual := proximo_estado\<rparr>)))"

text \<open>Lines 396 to 403: has the queue of the open axis emptied?\<close>

definition fila_ativa_esvaziou :: "EstadoFluxo \<Rightarrow> Cruzamento \<Rightarrow> bool" where
  "fila_ativa_esvaziou proximo_estado c =
     (if proximo_estado = FLUXO_NS
      then carros_esperando c NORTE = 0 \<and> carros_esperando c SUL = 0
      else carros_esperando c LESTE = 0 \<and> carros_esperando c OESTE = 0)"

fun fluxo_trafego :: "PcControlador \<Rightarrow> Cruzamento \<Rightarrow> PcControlador \<times> Cruzamento" where
  "fluxo_trafego K_CICLO c = (if modo_emergencia c then dreno_emergencia c else dreno_normal c)"
| "fluxo_trafego K_DRENO_EMERGENCIA c = dreno_emergencia c"
| "fluxo_trafego K_ESPERA_PASSIVA c = espera_passiva c"
| "fluxo_trafego K_DRENO_NORMAL c = dreno_normal c"
| "fluxo_trafego (K_JANELA proximo_estado tempo i) c =
     (if i < tempo
      then (if fila_ativa_esvaziou proximo_estado c then (K_CICLO, c)
            else (K_JANELA proximo_estado tempo (i + 1), c))
      else (K_CICLO, c))"

section \<open>The whole program\<close>

text \<open>
  The state of the program: the shared structure, one entry per car thread and per
  ambulance thread (its direction, fixed at creation, and its program counter) and the
  program counter of the controller.
\<close>

record Sistema =
  cruzamento :: Cruzamento
  carros_t :: "(Direcao \<times> PcCarro) list"
  ambulancias_t :: "(Direcao \<times> PcAmbulancia) list"
  fluxo :: PcControlador

datatype Acao = CARRO nat | AMBULANCIA nat | CONTROLADOR

text \<open>One atomic step of the thread the scheduler picks; a thread that does not exist does nothing.\<close>

fun passo :: "Acao \<Rightarrow> Sistema \<Rightarrow> Sistema" where
  "passo (CARRO n) s =
     (if n < length (carros_t s)
      then (case carros_t s ! n of (d, pc) \<Rightarrow>
              (case carros d pc (cruzamento s) of (pc', c') \<Rightarrow>
                 s\<lparr>cruzamento := c', carros_t := (carros_t s)[n := (d, pc')]\<rparr>))
      else s)"
| "passo (AMBULANCIA n) s =
     (if n < length (ambulancias_t s)
      then (case ambulancias_t s ! n of (d, pc) \<Rightarrow>
              (case ambulancia d pc (cruzamento s) of (pc', c') \<Rightarrow>
                 s\<lparr>cruzamento := c', ambulancias_t := (ambulancias_t s)[n := (d, pc')]\<rparr>))
      else s)"
| "passo CONTROLADOR s =
     (case fluxo_trafego (fluxo s) (cruzamento s) of (pc', c') \<Rightarrow>
        s\<lparr>cruzamento := c', fluxo := pc'\<rparr>)"

fun executa :: "Acao list \<Rightarrow> Sistema \<Rightarrow> Sistema" where
  "executa [] s = s"
| "executa (a # as) s = executa as (passo a s)"

text \<open>The initialisation of \<^verbatim>\<open>main\<close>, lines 436 to 445.\<close>

definition cruzamento_inicial :: Cruzamento where
  "cruzamento_inicial =
     \<lparr>carros_esperando = (\<lambda>_. 0), ambulancias_esperando = (\<lambda>_. 0),
      carros_no_cruzamento = 0, ambulancias_no_cruzamento = 0,
      modo_emergencia = False, estado_atual = FLUXO_NS\<rparr>"

text \<open>The program started with the given directions of its car and ambulance threads.\<close>

definition inicial :: "Direcao list \<Rightarrow> Direcao list \<Rightarrow> Sistema" where
  "inicial cs ambs =
     \<lparr>cruzamento = cruzamento_inicial,
      carros_t = map (\<lambda>d. (d, C_APROXIMANDO)) cs,
      ambulancias_t = map (\<lambda>d. (d, A_ANUNCIANDO)) ambs,
      fluxo = K_CICLO\<rparr>"

text \<open>The population that \<^verbatim>\<open>main\<close> creates, lines 42 to 52 and 451 to 508.\<close>

definition CARROS_NORTE :: nat where "CARROS_NORTE = 15"
definition CARROS_SUL :: nat where "CARROS_SUL = 3"
definition CARROS_LESTE :: nat where "CARROS_LESTE = 8"
definition CARROS_OESTE :: nat where "CARROS_OESTE = 8"
definition AMBULANCIA_NORTE :: nat where "AMBULANCIA_NORTE = 2"
definition AMBULANCIA_SUL :: nat where "AMBULANCIA_SUL = 1"
definition AMBULANCIA_LESTE :: nat where "AMBULANCIA_LESTE = 3"
definition AMBULANCIA_OESTE :: nat where "AMBULANCIA_OESTE = 1"

definition principal :: Sistema where
  "principal =
     inicial
       (replicate CARROS_NORTE NORTE @ replicate CARROS_SUL SUL @
        replicate CARROS_LESTE LESTE @ replicate CARROS_OESTE OESTE)
       (replicate AMBULANCIA_NORTE NORTE @ replicate AMBULANCIA_SUL SUL @
        replicate AMBULANCIA_LESTE LESTE @ replicate AMBULANCIA_OESTE OESTE)"

text \<open>
  The states the program can be in between two atomic steps, that is, the states observable
  with the lock free: any population, any schedule.
\<close>

inductive alcancavel :: "Sistema \<Rightarrow> bool" where
  inicio: "alcancavel (inicial cs ambs)"
| avanca: "alcancavel s \<Longrightarrow> alcancavel (passo a s)"

text \<open>
  Two invariants of the reachable states: cars are inside the intersection only under a
  normal flow selector, and the counter of cars inside the intersection is the number of
  car threads that are crossing.
\<close>

definition cruzando :: "Direcao \<times> PcCarro \<Rightarrow> bool" where
  "cruzando p = (snd p = C_CRUZANDO)"

definition inv_normal :: "Sistema \<Rightarrow> bool" where
  "inv_normal s =
     (carros_no_cruzamento (cruzamento s) > 0 \<longrightarrow>
      estado_atual (cruzamento s) = FLUXO_NS \<or> estado_atual (cruzamento s) = FLUXO_LO)"

definition inv_conta :: "Sistema \<Rightarrow> bool" where
  "inv_conta s =
     (carros_no_cruzamento (cruzamento s) = int (length (filter cruzando (carros_t s))))"

section \<open>Scenarios\<close>

text \<open>
  Concrete states and schedules of the program that \<^verbatim>\<open>main\<close> starts, used below to
  evaluate the model. Car thread 0 comes from the north and car thread 18 from the east;
  ambulance threads 0 and 1 come from the north and ambulance thread 3 from the east.
\<close>

text \<open>Two vehicles of each kind waiting on each axis: an exact tie.\<close>

definition cenario_empate :: Cruzamento where
  "cenario_empate =
     cruzamento_inicial
       \<lparr>carros_esperando := (\<lambda>_. 0)(NORTE := 2, LESTE := 1, OESTE := 1),
        ambulancias_esperando := (\<lambda>_. 0)(SUL := 2, OESTE := 2)\<rparr>"

text \<open>A car enters under the initial flow, then an ambulance announces itself.\<close>

definition cenario_carro_e_emergencia :: Sistema where
  "cenario_carro_e_emergencia = executa [CARRO 0, AMBULANCIA 0] principal"

text \<open>The same, and the ambulance then reaches the queue and tests the predicate.\<close>

definition cenario_carro_e_ambulancia :: Sistema where
  "cenario_carro_e_ambulancia = executa [CARRO 0, AMBULANCIA 0, AMBULANCIA 0] principal"

text \<open>
  A northern ambulance announces itself and queues, an eastern one does the same, the
  controller runs its cycle, and the eastern ambulance tests the predicate again.
\<close>

definition cenario_eixos_cruzados :: Sistema where
  "cenario_eixos_cruzados =
     executa [AMBULANCIA 0, AMBULANCIA 0, AMBULANCIA 3, AMBULANCIA 3, CONTROLADOR, AMBULANCIA 3]
       principal"

text \<open>Two northern ambulances announce themselves and queue, then an eastern one.\<close>

definition cenario_saida :: Sistema where
  "cenario_saida =
     executa [AMBULANCIA 0, AMBULANCIA 0, AMBULANCIA 1, AMBULANCIA 1, AMBULANCIA 3, AMBULANCIA 3]
       principal"

text \<open>An eastern ambulance announces itself and queues; the controller has not run yet.\<close>

definition cenario_troca :: Sistema where
  "cenario_troca = executa [AMBULANCIA 3, AMBULANCIA 3] principal"

text \<open>A northern car enters and an eastern car queues; the controller has not run yet.\<close>

definition cenario_dreno :: Sistema where
  "cenario_dreno = executa [CARRO 0, CARRO 18] principal"

section \<open>Properties of the admission predicate\<close>

lemmas direcoes = NORTE_def SUL_def LESTE_def OESTE_def NUM_DIRECOES_def

text \<open>
  C1. Under a priority selector the predicate returns 0 for every ordinary vehicle, whatever
  the direction and the emergency flag; under a normal selector with no emergency active it
  returns 1 exactly when the axis of the direction is the axis of the selector, and 0
  otherwise, for both kinds of vehicle.
\<close>

theorem pode_passar_regras:
  "(fluxo_prioritario estado \<longrightarrow> pode_passar c dir estado TIPO_CARRO = 0) \<and>
   (\<not> fluxo_prioritario estado \<and> \<not> modo_emergencia c \<longrightarrow>
      (pode_passar c dir estado tipo = 1 \<longleftrightarrow> eixo_direcao dir = Some (eixo_fluxo estado)) \<and>
      (pode_passar c dir estado tipo = 0 \<longleftrightarrow> eixo_direcao dir \<noteq> Some (eixo_fluxo estado)))"
  by (cases estado; cases tipo) (auto simp: pode_passar_def eixo_direcao_def direcoes)

theorem pode_passar_regras_witness:
  "fluxo_prioritario AMBULANCIA_NS \<and>
   pode_passar cruzamento_inicial NORTE AMBULANCIA_NS TIPO_CARRO = 0 \<and>
   \<not> fluxo_prioritario FLUXO_LO \<and> \<not> modo_emergencia cruzamento_inicial \<and>
   pode_passar cruzamento_inicial OESTE FLUXO_LO TIPO_CARRO = 1 \<and>
   eixo_direcao OESTE = Some (eixo_fluxo FLUXO_LO) \<and>
   pode_passar cruzamento_inicial SUL FLUXO_LO TIPO_AMBULANCIA = 0 \<and>
   eixo_direcao SUL \<noteq> Some (eixo_fluxo FLUXO_LO)"
  using pode_passar_regras [of AMBULANCIA_NS cruzamento_inicial NORTE TIPO_CARRO]
    pode_passar_regras [of FLUXO_LO cruzamento_inicial OESTE TIPO_CARRO]
    pode_passar_regras [of FLUXO_LO cruzamento_inicial SUL TIPO_AMBULANCIA]
  by (simp add: cruzamento_inicial_def eixo_direcao_def direcoes)

text \<open>
  C2. While the emergency flag is set the predicate returns 0 for an ordinary vehicle, for
  every direction and every flow selector, the normal selectors included; hence a car that
  reaches the queue or wakes up in it while the flag is set is not admitted: it waits.
\<close>

theorem pode_passar_emergencia_barra_carros:
  "modo_emergencia c \<Longrightarrow>
   pode_passar c dir estado TIPO_CARRO = 0 \<and>
   fst (carros dir C_APROXIMANDO c) = C_ESPERANDO \<and>
   fst (carros dir C_ESPERANDO c) = C_ESPERANDO"
  by (simp add: pode_passar_def carros_tenta_def)

theorem pode_passar_emergencia_barra_carros_witness:
  "modo_emergencia (cruzamento_inicial\<lparr>modo_emergencia := True\<rparr>) \<and>
   pode_passar (cruzamento_inicial\<lparr>modo_emergencia := True\<rparr>) NORTE FLUXO_NS TIPO_CARRO = 0 \<and>
   fst (carros NORTE C_APROXIMANDO (cruzamento_inicial\<lparr>modo_emergencia := True\<rparr>)) = C_ESPERANDO"
  using pode_passar_emergencia_barra_carros
    [of "cruzamento_inicial\<lparr>modo_emergencia := True\<rparr>" NORTE FLUXO_NS]
  by simp

text \<open>
  C10. A direction value that is none of North, South, East and West (the sentinel
  \<^verbatim>\<open>NUM_DIRECOES\<close> or any other integer) fails both axis tests and reaches the final
  \<^verbatim>\<open>return 0\<close>, for every flow selector, every kind of vehicle and either value of the
  emergency flag.
\<close>

theorem pode_passar_direcao_invalida:
  "dir \<noteq> NORTE \<Longrightarrow> dir \<noteq> SUL \<Longrightarrow> dir \<noteq> LESTE \<Longrightarrow> dir \<noteq> OESTE \<Longrightarrow>
   pode_passar c dir estado tipo = 0"
  by (simp add: pode_passar_def)

theorem pode_passar_direcao_invalida_witness:
  "NUM_DIRECOES \<noteq> NORTE \<and> NUM_DIRECOES \<noteq> SUL \<and> NUM_DIRECOES \<noteq> LESTE \<and> NUM_DIRECOES \<noteq> OESTE \<and>
   pode_passar cruzamento_inicial NUM_DIRECOES AMBULANCIA_LO TIPO_AMBULANCIA = 0"
  using pode_passar_direcao_invalida
    [of NUM_DIRECOES cruzamento_inicial AMBULANCIA_LO TIPO_AMBULANCIA]
  by (simp add: direcoes)

section \<open>Properties of the window duration\<close>

text \<open>
  C5. Whatever the demand of the axis that wins, the duration the normal branch computes
  lies between the minimum of 5 and the maximum of 20.
\<close>

theorem tempo_final_limites:
  "T_MINIMO \<le> tempo_final num_carros \<and> tempo_final num_carros \<le> T_MAXIMO \<and>
   T_MINIMO = 5 \<and> T_MAXIMO = 20"
  by (simp add: tempo_final_def Let_def T_MINIMO_def T_MAXIMO_def)

text \<open>
  The two \<^verbatim>\<open>double\<close> constants and the value of the \<^verbatim>\<open>float\<close> variable for three
  demands, one rounding at a time.
\<close>

lemma T_BASE_valor: "T_BASE = 8106479329266893 / 4503599627370496"
  by code_simp

lemma FATOR_CARRO_valor: "FATOR_CARRO = 2476979795053773 / 1125899906842624"
  by code_simp

lemma tempo_calculado_1: "tempo_calculado 1 = 7549747 / 4194304"
proof -
  have e1: "para_double (rat_of_int (1 - 1)) = 0" by code_simp
  have e2: "para_double (0 * FATOR_CARRO) = 0" by code_simp
  have e3: "para_double (T_BASE + 0) = 8106479329266893 / 4503599627370496"
    unfolding T_BASE_valor by code_simp
  have e4: "para_float (8106479329266893 / 4503599627370496) = 7549747 / 4194304"
    by code_simp
  show ?thesis unfolding tempo_calculado_def e1 e2 e3 by (simp add: e4)
qed

lemma tempo_calculado_5: "tempo_calculado 5 = 5557453 / 524288"
proof -
  have e1: "para_double (rat_of_int (5 - 1)) = 4" by code_simp
  have e2: "para_double (4 * FATOR_CARRO) = 2476979795053773 / 281474976710656"
    unfolding FATOR_CARRO_valor by code_simp
  have e3: "para_double (T_BASE + 2476979795053773 / 281474976710656) =
      1491817376566477 / 140737488355328"
    unfolding T_BASE_valor by code_simp
  have e4: "para_float (1491817376566477 / 140737488355328) = 5557453 / 524288"
    by code_simp
  show ?thesis unfolding tempo_calculado_def e1 e2 e3 by (simp add: e4)
qed

lemma tempo_calculado_20: "tempo_calculado 20 = 5714739 / 131072"
proof -
  have e1: "para_double (rat_of_int (20 - 1)) = 19" by code_simp
  have e2: "para_double (19 * FATOR_CARRO) = 5882827013252711 / 140737488355328"
    unfolding FATOR_CARRO_valor by code_simp
  have e3: "para_double (T_BASE + 5882827013252711 / 140737488355328) =
      6136154492292301 / 140737488355328"
    unfolding T_BASE_valor by code_simp
  have e4: "para_float (6136154492292301 / 140737488355328) = 5714739 / 131072"
    by code_simp
  show ?thesis unfolding tempo_calculado_def e1 e2 e3 by (simp add: e4)
qed

text \<open>
  C6. With the constants of the program (base 1.8, factor 2.2, minimum 5, maximum 20) a
  demand of 1 gives a duration of 5, a demand of 5 a duration of 10 and a demand of 20 a
  duration of 20.
\<close>

theorem tempo_final_exemplos:
  "tempo_final 1 = 5 \<and> tempo_final 5 = 10 \<and> tempo_final 20 = 20"
proof -
  have p1: "para_int (7549747 / 4194304) = 1" by code_simp
  have p5: "para_int (5557453 / 524288) = 10" by code_simp
  have p20: "para_int (5714739 / 131072) = 43" by code_simp
  show ?thesis
    unfolding tempo_final_def tempo_calculado_1 tempo_calculado_5 tempo_calculado_20 p1 p5 p20
    by (simp add: T_MINIMO_def T_MAXIMO_def)
qed

section \<open>Properties of the controller's decisions\<close>

text \<open>
  C7. In both branches the controller picks the North-South selector exactly when the
  North-South sum of waiting counts is at least the East-West sum, and the East-West
  selector otherwise; in particular a tie goes to North-South. The selector it stores once
  the intersection is drained is that decision.
\<close>

theorem desempate_favorece_norte_sul:
  "(fst (decide_normal c) = FLUXO_NS \<longleftrightarrow>
      carros_esperando c NORTE + carros_esperando c SUL
        \<ge> carros_esperando c LESTE + carros_esperando c OESTE) \<and>
   (fst (decide_normal c) = FLUXO_LO \<longleftrightarrow>
      carros_esperando c NORTE + carros_esperando c SUL
        < carros_esperando c LESTE + carros_esperando c OESTE) \<and>
   (decide_emergencia c = AMBULANCIA_NS \<longleftrightarrow>
      ambulancias_esperando c NORTE + ambulancias_esperando c SUL
        \<ge> ambulancias_esperando c LESTE + ambulancias_esperando c OESTE) \<and>
   (decide_emergencia c = AMBULANCIA_LO \<longleftrightarrow>
      ambulancias_esperando c NORTE + ambulancias_esperando c SUL
        < ambulancias_esperando c LESTE + ambulancias_esperando c OESTE) \<and>
   (carros_esperando c NORTE + carros_esperando c SUL
      = carros_esperando c LESTE + carros_esperando c OESTE \<longrightarrow>
    fst (decide_normal c) = FLUXO_NS) \<and>
   (ambulancias_esperando c NORTE + ambulancias_esperando c SUL
      = ambulancias_esperando c LESTE + ambulancias_esperando c OESTE \<longrightarrow>
    decide_emergencia c = AMBULANCIA_NS) \<and>
   (\<not> carros_no_cruzamento c > 0 \<longrightarrow>
    estado_atual (snd (dreno_normal c)) = fst (decide_normal c) \<and>
    estado_atual (snd (dreno_emergencia c)) = decide_emergencia c)"
  by (auto simp: decide_normal_def decide_emergencia_def dreno_normal_def dreno_emergencia_def
      espera_passiva_def Let_def split: prod.splits)

theorem desempate_favorece_norte_sul_witness:
  "carros_esperando cenario_empate NORTE + carros_esperando cenario_empate SUL = 2 \<and>
   carros_esperando cenario_empate LESTE + carros_esperando cenario_empate OESTE = 2 \<and>
   fst (decide_normal cenario_empate) = FLUXO_NS \<and>
   ambulancias_esperando cenario_empate NORTE + ambulancias_esperando cenario_empate SUL = 2 \<and>
   ambulancias_esperando cenario_empate LESTE + ambulancias_esperando cenario_empate OESTE = 2 \<and>
   decide_emergencia cenario_empate = AMBULANCIA_NS \<and>
   \<not> carros_no_cruzamento cenario_empate > 0 \<and>
   estado_atual (snd (dreno_normal cenario_empate)) = FLUXO_NS \<and>
   estado_atual (snd (dreno_emergencia cenario_empate)) = AMBULANCIA_NS"
  using desempate_favorece_norte_sul [of cenario_empate]
  by (simp add: cenario_empate_def cruzamento_inicial_def direcoes)

section \<open>Properties of the threads\<close>

text \<open>
  C8. The exit step of an ambulance clears the emergency flag whatever the state: it
  decrements the counter of ambulances inside the intersection, sets the flag to false and
  leaves the queues as they are, so the flag is cleared even when other ambulances are
  still waiting or crossing.
\<close>

theorem saida_de_ambulancia_encerra_emergencia:
  "n < length (ambulancias_t s) \<Longrightarrow> snd (ambulancias_t s ! n) = A_CRUZANDO \<Longrightarrow>
   \<not> modo_emergencia (cruzamento (passo (AMBULANCIA n) s)) \<and>
   ambulancias_no_cruzamento (cruzamento (passo (AMBULANCIA n) s)) =
     ambulancias_no_cruzamento (cruzamento s) - 1 \<and>
   ambulancias_esperando (cruzamento (passo (AMBULANCIA n) s)) =
     ambulancias_esperando (cruzamento s)"
  by (cases "ambulancias_t s ! n") simp

theorem saida_de_ambulancia_encerra_emergencia_witness:
  "0 < length (ambulancias_t cenario_saida) \<and>
   snd (ambulancias_t cenario_saida ! 0) = A_CRUZANDO \<and>
   snd (ambulancias_t cenario_saida ! 1) = A_CRUZANDO \<and>
   snd (ambulancias_t cenario_saida ! 3) = A_ESPERANDO \<and>
   \<not> modo_emergencia (cruzamento (passo (AMBULANCIA 0) cenario_saida)) \<and>
   ambulancias_no_cruzamento (cruzamento (passo (AMBULANCIA 0) cenario_saida)) = 1"
proof -
  have h1: "0 < length (ambulancias_t cenario_saida)" by code_simp
  have h2: "snd (ambulancias_t cenario_saida ! 0) = A_CRUZANDO" by code_simp
  have h3: "snd (ambulancias_t cenario_saida ! 1) = A_CRUZANDO" by code_simp
  have h4: "snd (ambulancias_t cenario_saida ! 3) = A_ESPERANDO" by code_simp
  have h5: "ambulancias_no_cruzamento (cruzamento cenario_saida) = 2" by code_simp
  from saida_de_ambulancia_encerra_emergencia [OF h1 h2] h5
  have "\<not> modo_emergencia (cruzamento (passo (AMBULANCIA 0) cenario_saida)) \<and>
    ambulancias_no_cruzamento (cruzamento (passo (AMBULANCIA 0) cenario_saida)) = 1"
    by simp
  with h1 h2 h3 h4 show ?thesis by blast
qed

section \<open>Invariants of the reachable states\<close>

lemma pode_passar_carro_normal:
  "pode_passar c d e TIPO_CARRO \<noteq> 0 \<Longrightarrow> (e = FLUXO_NS \<or> e = FLUXO_LO) \<and> \<not> modo_emergencia c"
  by (cases e) (auto simp: pode_passar_def split: if_splits)

lemma conta_update:
  "n < length xs \<Longrightarrow>
   int (length (filter P (xs[n := y]))) =
   int (length (filter P xs)) - (if P (xs ! n) then 1 else 0) + (if P y then 1 else 0)"
proof (induction xs arbitrary: n)
  case Nil
  then show ?case by simp
next
  case (Cons x xs)
  show ?case
  proof (cases n)
    case 0
    then show ?thesis by simp
  next
    case (Suc m)
    with Cons.prems have "m < length xs" by simp
    from Cons.IH[OF this] Suc show ?thesis by (auto split: if_splits)
  qed
qed

text \<open>What one step of each thread does to the flow selector and to the counter of cars.\<close>

lemma carros_estado: "carros d pc c = (pc', c') \<Longrightarrow> estado_atual c' = estado_atual c"
  by (cases pc) (auto simp: carros_tenta_def split: if_splits)

lemma carros_conta:
  "carros d pc c = (pc', c') \<Longrightarrow>
   carros_no_cruzamento c' =
     carros_no_cruzamento c - (if pc = C_CRUZANDO then 1 else 0)
       + (if pc' = C_CRUZANDO then 1 else 0)"
  by (cases pc) (auto simp: carros_tenta_def split: if_splits)

lemma carros_entra:
  "carros d pc c = (C_CRUZANDO, c') \<Longrightarrow> estado_atual c = FLUXO_NS \<or> estado_atual c = FLUXO_LO"
  by (cases pc) (auto simp: carros_tenta_def split: if_splits dest: pode_passar_carro_normal)

lemma ambulancia_carros:
  "ambulancia d pc c = (pc', c') \<Longrightarrow>
   estado_atual c' = estado_atual c \<and> carros_no_cruzamento c' = carros_no_cruzamento c"
  by (cases pc) (auto simp: ambulancia_tenta_def split: if_splits)

lemma fluxo_trafego_carros:
  "fluxo_trafego pc c = (pc', c') \<Longrightarrow> carros_no_cruzamento c' = carros_no_cruzamento c"
  by (cases pc)
    (auto simp: dreno_emergencia_def dreno_normal_def espera_passiva_def
      split: if_splits prod.splits)

lemma fluxo_trafego_dreno:
  "fluxo_trafego pc c = (pc', c') \<Longrightarrow> carros_no_cruzamento c > 0 \<Longrightarrow> c' = c"
  by (cases pc)
    (auto simp: dreno_emergencia_def dreno_normal_def espera_passiva_def
      split: if_splits prod.splits)

lemma fluxo_trafego_troca:
  "fluxo_trafego pc c = (pc', c') \<Longrightarrow> estado_atual c' \<noteq> estado_atual c \<Longrightarrow>
   (pc = K_CICLO \<or> pc = K_DRENO_EMERGENCIA \<or> pc = K_DRENO_NORMAL) \<and>
   \<not> carros_no_cruzamento c > 0"
  by (cases pc)
    (auto simp: dreno_emergencia_def dreno_normal_def espera_passiva_def
      split: if_splits prod.splits)

text \<open>Cars are inside the intersection only under a normal flow selector.\<close>

lemma inv_normal_passo: "inv_normal s \<Longrightarrow> inv_normal (passo a s)"
proof (cases a)
  case (CARRO n)
  assume i: "inv_normal s"
  show ?thesis
  proof (cases "n < length (carros_t s)")
    case False
    with i CARRO show ?thesis by simp
  next
    case True
    obtain d pc where e: "carros_t s ! n = (d, pc)"
      by (cases "carros_t s ! n")
    obtain pc' c' where st: "carros d pc (cruzamento s) = (pc', c')"
      by (cases "carros d pc (cruzamento s)")
    have p: "passo a s = s\<lparr>cruzamento := c', carros_t := (carros_t s)[n := (d, pc')]\<rparr>"
      using CARRO True e st by simp
    show ?thesis
    proof (cases "pc' = C_CRUZANDO")
      case True
      with st carros_entra[of d pc "cruzamento s" c'] carros_estado[OF st] p show ?thesis
        by (simp add: inv_normal_def)
    next
      case False
      with carros_conta[OF st] carros_estado[OF st] i p show ?thesis
        by (auto simp: inv_normal_def split: if_splits)
    qed
  qed
next
  case (AMBULANCIA n)
  assume i: "inv_normal s"
  show ?thesis
  proof (cases "n < length (ambulancias_t s)")
    case False
    with i AMBULANCIA show ?thesis by simp
  next
    case True
    obtain d pc where e: "ambulancias_t s ! n = (d, pc)"
      by (cases "ambulancias_t s ! n")
    obtain pc' c' where st: "ambulancia d pc (cruzamento s) = (pc', c')"
      by (cases "ambulancia d pc (cruzamento s)")
    have "passo a s = s\<lparr>cruzamento := c', ambulancias_t := (ambulancias_t s)[n := (d, pc')]\<rparr>"
      using AMBULANCIA True e st by simp
    with ambulancia_carros[OF st] i show ?thesis by (simp add: inv_normal_def)
  qed
next
  case CONTROLADOR
  assume i: "inv_normal s"
  obtain pc' c' where st: "fluxo_trafego (fluxo s) (cruzamento s) = (pc', c')"
    by (cases "fluxo_trafego (fluxo s) (cruzamento s)")
  have p: "passo a s = s\<lparr>cruzamento := c', fluxo := pc'\<rparr>"
    using CONTROLADOR st by simp
  show ?thesis
  proof (cases "carros_no_cruzamento (cruzamento s) > 0")
    case True
    with fluxo_trafego_dreno[OF st] i p show ?thesis by (simp add: inv_normal_def)
  next
    case False
    with fluxo_trafego_carros[OF st] p show ?thesis by (simp add: inv_normal_def)
  qed
qed

lemma inv_normal_inicial: "inv_normal (inicial cs ambs)"
  by (simp add: inv_normal_def inicial_def cruzamento_inicial_def)

lemma alcancavel_inv_normal: "alcancavel s \<Longrightarrow> inv_normal s"
  by (induction rule: alcancavel.induct) (simp_all add: inv_normal_inicial inv_normal_passo)

text \<open>The counter of cars inside the intersection counts the car threads that are crossing.\<close>

lemma inv_conta_passo: "inv_conta s \<Longrightarrow> inv_conta (passo a s)"
proof (cases a)
  case (CARRO n)
  assume i: "inv_conta s"
  show ?thesis
  proof (cases "n < length (carros_t s)")
    case False
    with i CARRO show ?thesis by simp
  next
    case True
    obtain d pc where e: "carros_t s ! n = (d, pc)"
      by (cases "carros_t s ! n")
    obtain pc' c' where st: "carros d pc (cruzamento s) = (pc', c')"
      by (cases "carros d pc (cruzamento s)")
    have p: "passo a s = s\<lparr>cruzamento := c', carros_t := (carros_t s)[n := (d, pc')]\<rparr>"
      using CARRO True e st by simp
    from carros_conta[OF st] i e p conta_update[OF True, of cruzando "(d, pc')"]
    show ?thesis by (simp add: inv_conta_def cruzando_def)
  qed
next
  case (AMBULANCIA n)
  assume i: "inv_conta s"
  show ?thesis
  proof (cases "n < length (ambulancias_t s)")
    case False
    with i AMBULANCIA show ?thesis by simp
  next
    case True
    obtain d pc where e: "ambulancias_t s ! n = (d, pc)"
      by (cases "ambulancias_t s ! n")
    obtain pc' c' where st: "ambulancia d pc (cruzamento s) = (pc', c')"
      by (cases "ambulancia d pc (cruzamento s)")
    have "passo a s = s\<lparr>cruzamento := c', ambulancias_t := (ambulancias_t s)[n := (d, pc')]\<rparr>"
      using AMBULANCIA True e st by simp
    with ambulancia_carros[OF st] i show ?thesis by (simp add: inv_conta_def)
  qed
next
  case CONTROLADOR
  assume i: "inv_conta s"
  obtain pc' c' where st: "fluxo_trafego (fluxo s) (cruzamento s) = (pc', c')"
    by (cases "fluxo_trafego (fluxo s) (cruzamento s)")
  have "passo a s = s\<lparr>cruzamento := c', fluxo := pc'\<rparr>"
    using CONTROLADOR st by simp
  with fluxo_trafego_carros[OF st] i show ?thesis by (simp add: inv_conta_def)
qed

lemma inv_conta_inicial: "inv_conta (inicial cs ambs)"
  by (simp add: inv_conta_def inicial_def cruzamento_inicial_def cruzando_def filter_map o_def)

lemma alcancavel_inv_conta: "alcancavel s \<Longrightarrow> inv_conta s"
  by (induction rule: alcancavel.induct) (simp_all add: inv_conta_inicial inv_conta_passo)

lemma alcancavel_nao_negativo: "alcancavel s \<Longrightarrow> 0 \<le> carros_no_cruzamento (cruzamento s)"
  by (drule alcancavel_inv_conta) (simp add: inv_conta_def)

text \<open>Every schedule of the program that \<^verbatim>\<open>main\<close> starts ends in a reachable state.\<close>

lemma alcancavel_executa: "alcancavel s \<Longrightarrow> alcancavel (executa as s)"
  by (induction as arbitrary: s) (simp_all add: alcancavel.avanca)

lemma alcancavel_principal: "alcancavel (executa as principal)"
  by (simp add: alcancavel_executa principal_def alcancavel.inicio)

lemma alcancavel_cenario_carro_e_emergencia: "alcancavel cenario_carro_e_emergencia"
  unfolding cenario_carro_e_emergencia_def by (rule alcancavel_principal)

lemma alcancavel_cenario_carro_e_ambulancia: "alcancavel cenario_carro_e_ambulancia"
  unfolding cenario_carro_e_ambulancia_def by (rule alcancavel_principal)

lemma alcancavel_cenario_eixos_cruzados: "alcancavel cenario_eixos_cruzados"
  unfolding cenario_eixos_cruzados_def by (rule alcancavel_principal)

lemma alcancavel_cenario_troca: "alcancavel cenario_troca"
  unfolding cenario_troca_def by (rule alcancavel_principal)

lemma alcancavel_cenario_dreno: "alcancavel cenario_dreno"
  unfolding cenario_dreno_def by (rule alcancavel_principal)

section \<open>Properties of the reachable states\<close>

text \<open>
  C4, as stated, fails. After a car has entered under the initial flow and an ambulance has
  announced itself, one car is inside the intersection and the emergency flag is set: the
  announcement (lines 235 to 240) does not wait for the cars that are crossing.
\<close>

theorem carros_cruzando_durante_emergencia:
  "alcancavel cenario_carro_e_emergencia \<and>
   carros_no_cruzamento (cruzamento cenario_carro_e_emergencia) = 1 \<and>
   estado_atual (cruzamento cenario_carro_e_emergencia) = FLUXO_NS \<and>
   modo_emergencia (cruzamento cenario_carro_e_emergencia)"
proof -
  have "carros_no_cruzamento (cruzamento cenario_carro_e_emergencia) = 1" by code_simp
  moreover have "estado_atual (cruzamento cenario_carro_e_emergencia) = FLUXO_NS" by code_simp
  moreover have "modo_emergencia (cruzamento cenario_carro_e_emergencia)" by code_simp
  ultimately show ?thesis using alcancavel_cenario_carro_e_emergencia by blast
qed

text \<open>
  C4, amended. In every reachable state, if cars are inside the intersection then the flow
  selector is one of the two normal selectors. Nothing is said of the emergency flag.
\<close>

theorem carros_cruzando_so_em_fluxo_normal:
  "alcancavel s \<Longrightarrow> carros_no_cruzamento (cruzamento s) > 0 \<Longrightarrow>
   estado_atual (cruzamento s) = FLUXO_NS \<or> estado_atual (cruzamento s) = FLUXO_LO"
  by (drule alcancavel_inv_normal) (simp add: inv_normal_def)

theorem carros_cruzando_so_em_fluxo_normal_witness:
  "alcancavel cenario_carro_e_emergencia \<and>
   carros_no_cruzamento (cruzamento cenario_carro_e_emergencia) > 0 \<and>
   (estado_atual (cruzamento cenario_carro_e_emergencia) = FLUXO_NS \<or>
    estado_atual (cruzamento cenario_carro_e_emergencia) = FLUXO_LO)"
proof -
  have h: "carros_no_cruzamento (cruzamento cenario_carro_e_emergencia) > 0" by code_simp
  from alcancavel_cenario_carro_e_emergencia h
    carros_cruzando_so_em_fluxo_normal [OF alcancavel_cenario_carro_e_emergencia h]
  show ?thesis by blast
qed

text \<open>What a step does to the flow selector, at the level of the whole program.\<close>

lemma passo_estado_veiculos:
  "a \<noteq> CONTROLADOR \<Longrightarrow> estado_atual (cruzamento (passo a s)) = estado_atual (cruzamento s)"
proof (cases a)
  case (CARRO n)
  show ?thesis
  proof (cases "n < length (carros_t s)")
    case True
    obtain d pc where e: "carros_t s ! n = (d, pc)"
      by (cases "carros_t s ! n")
    obtain pc' c' where st: "carros d pc (cruzamento s) = (pc', c')"
      by (cases "carros d pc (cruzamento s)")
    from carros_estado[OF st] CARRO True e st show ?thesis by simp
  next
    case False
    with CARRO show ?thesis by simp
  qed
next
  case (AMBULANCIA n)
  show ?thesis
  proof (cases "n < length (ambulancias_t s)")
    case True
    obtain d pc where e: "ambulancias_t s ! n = (d, pc)"
      by (cases "ambulancias_t s ! n")
    obtain pc' c' where st: "ambulancia d pc (cruzamento s) = (pc', c')"
      by (cases "ambulancia d pc (cruzamento s)")
    from ambulancia_carros[OF st] AMBULANCIA True e st show ?thesis by simp
  next
    case False
    with AMBULANCIA show ?thesis by simp
  qed
next
  case CONTROLADOR
  assume "a \<noteq> CONTROLADOR"
  with CONTROLADOR show ?thesis by simp
qed

lemma passo_controlador_dreno:
  "carros_no_cruzamento (cruzamento s) > 0 \<Longrightarrow>
   cruzamento (passo CONTROLADOR s) = cruzamento s"
proof -
  assume c: "carros_no_cruzamento (cruzamento s) > 0"
  obtain pc' c' where st: "fluxo_trafego (fluxo s) (cruzamento s) = (pc', c')"
    by (cases "fluxo_trafego (fluxo s) (cruzamento s)")
  from fluxo_trafego_dreno[OF st c] st show ?thesis by simp
qed

lemma passo_controlador_troca:
  "estado_atual (cruzamento (passo CONTROLADOR s)) \<noteq> estado_atual (cruzamento s) \<Longrightarrow>
   (fluxo s = K_CICLO \<or> fluxo s = K_DRENO_EMERGENCIA \<or> fluxo s = K_DRENO_NORMAL) \<and>
   \<not> carros_no_cruzamento (cruzamento s) > 0"
proof -
  assume d: "estado_atual (cruzamento (passo CONTROLADOR s)) \<noteq> estado_atual (cruzamento s)"
  obtain pc' c' where st: "fluxo_trafego (fluxo s) (cruzamento s) = (pc', c')"
    by (cases "fluxo_trafego (fluxo s) (cruzamento s)")
  with d have "estado_atual c' \<noteq> estado_atual (cruzamento s)" by simp
  from fluxo_trafego_troca[OF st this] show ?thesis .
qed

text \<open>
  C9. Along every execution, a controller step taken while cars are inside the
  intersection leaves the shared structure as it is (the controller goes on waiting in its
  drain loop), and a step that changes the flow selector is a step of the controller, taken
  from the top of its cycle or from one of its two drain waits, in a state where no car is
  inside the intersection.
\<close>

theorem troca_de_fluxo_so_com_cruzamento_drenado:
  "alcancavel s \<Longrightarrow>
   (carros_no_cruzamento (cruzamento s) > 0 \<longrightarrow>
      cruzamento (passo CONTROLADOR s) = cruzamento s) \<and>
   (estado_atual (cruzamento (passo a s)) \<noteq> estado_atual (cruzamento s) \<longrightarrow>
      a = CONTROLADOR \<and>
      (fluxo s = K_CICLO \<or> fluxo s = K_DRENO_EMERGENCIA \<or> fluxo s = K_DRENO_NORMAL) \<and>
      carros_no_cruzamento (cruzamento s) = 0)"
proof (intro conjI impI)
  assume "carros_no_cruzamento (cruzamento s) > 0"
  then show "cruzamento (passo CONTROLADOR s) = cruzamento s"
    by (rule passo_controlador_dreno)
next
  assume d: "estado_atual (cruzamento (passo a s)) \<noteq> estado_atual (cruzamento s)"
  then show a: "a = CONTROLADOR"
    using passo_estado_veiculos[of a s] by blast
  from d a passo_controlador_troca[of s]
  show "fluxo s = K_CICLO \<or> fluxo s = K_DRENO_EMERGENCIA \<or> fluxo s = K_DRENO_NORMAL"
    by blast
  assume "alcancavel s"
  from alcancavel_nao_negativo[OF this] d a passo_controlador_troca[of s]
  show "carros_no_cruzamento (cruzamento s) = 0" by auto
qed

theorem troca_de_fluxo_so_com_cruzamento_drenado_witness:
  "alcancavel cenario_dreno \<and> carros_no_cruzamento (cruzamento cenario_dreno) > 0 \<and>
   fluxo cenario_dreno = K_CICLO \<and>
   estado_atual (cruzamento (passo CONTROLADOR cenario_dreno)) = FLUXO_NS \<and>
   alcancavel cenario_troca \<and>
   estado_atual (cruzamento cenario_troca) = FLUXO_NS \<and>
   estado_atual (cruzamento (passo CONTROLADOR cenario_troca)) = AMBULANCIA_LO \<and>
   carros_no_cruzamento (cruzamento cenario_troca) = 0"
proof -
  have h1: "carros_no_cruzamento (cruzamento cenario_dreno) > 0" by code_simp
  have h2: "fluxo cenario_dreno = K_CICLO" by code_simp
  have h3: "estado_atual (cruzamento cenario_dreno) = FLUXO_NS" by code_simp
  have h4: "estado_atual (cruzamento cenario_troca) = FLUXO_NS" by code_simp
  have h5: "estado_atual (cruzamento (passo CONTROLADOR cenario_troca)) = AMBULANCIA_LO"
    by code_simp
  from troca_de_fluxo_so_com_cruzamento_drenado [OF alcancavel_cenario_dreno, of CONTROLADOR]
    h1 h3
  have c1: "estado_atual (cruzamento (passo CONTROLADOR cenario_dreno)) = FLUXO_NS" by simp
  from troca_de_fluxo_so_com_cruzamento_drenado [OF alcancavel_cenario_troca, of CONTROLADOR]
    h4 h5
  have c2: "carros_no_cruzamento (cruzamento cenario_troca) = 0" by simp
  from alcancavel_cenario_dreno alcancavel_cenario_troca h1 h2 h4 h5 c1 c2
  show ?thesis by blast
qed

text \<open>
  C3. The program does not keep the exclusion the claim states. In the first schedule a
  northern car is crossing when a northern ambulance reaches the queue: the predicate
  admits the ambulance under the normal North-South flow, and a car and an ambulance are
  inside the intersection together. In the second schedule a northern ambulance has entered
  in the same way; the controller, which drains cars only, opens the East-West priority
  flow, and an eastern ambulance enters while the northern one is still crossing.
\<close>

theorem exclusao_mutua_violada:
  "alcancavel cenario_carro_e_ambulancia \<and>
   carros_t cenario_carro_e_ambulancia ! 0 = (NORTE, C_CRUZANDO) \<and>
   ambulancias_t cenario_carro_e_ambulancia ! 0 = (NORTE, A_CRUZANDO) \<and>
   carros_no_cruzamento (cruzamento cenario_carro_e_ambulancia) = 1 \<and>
   ambulancias_no_cruzamento (cruzamento cenario_carro_e_ambulancia) = 1 \<and>
   alcancavel cenario_eixos_cruzados \<and>
   ambulancias_t cenario_eixos_cruzados ! 0 = (NORTE, A_CRUZANDO) \<and>
   ambulancias_t cenario_eixos_cruzados ! 3 = (LESTE, A_CRUZANDO) \<and>
   ambulancias_no_cruzamento (cruzamento cenario_eixos_cruzados) = 2"
proof -
  have "carros_t cenario_carro_e_ambulancia ! 0 = (NORTE, C_CRUZANDO)" by code_simp
  moreover have "ambulancias_t cenario_carro_e_ambulancia ! 0 = (NORTE, A_CRUZANDO)"
    by code_simp
  moreover have "carros_no_cruzamento (cruzamento cenario_carro_e_ambulancia) = 1"
    by code_simp
  moreover have "ambulancias_no_cruzamento (cruzamento cenario_carro_e_ambulancia) = 1"
    by code_simp
  moreover have "ambulancias_t cenario_eixos_cruzados ! 0 = (NORTE, A_CRUZANDO)" by code_simp
  moreover have "ambulancias_t cenario_eixos_cruzados ! 3 = (LESTE, A_CRUZANDO)" by code_simp
  moreover have "ambulancias_no_cruzamento (cruzamento cenario_eixos_cruzados) = 2"
    by code_simp
  ultimately show ?thesis
    using alcancavel_cenario_carro_e_ambulancia alcancavel_cenario_eixos_cruzados by blast
qed

end
